theory Spec2Isabelle
  imports Complex_Main
begin

section \<open>JavaScript numbers\<close>

text \<open>
  The fund-forecast service computes with JavaScript numbers. They are modelled with
  exact real arithmetic on the finite values (rounding is abstracted away) together with
  the three special values of IEEE 754, so that a division by zero is a value of the
  model (an infinity or NaN) and not the arbitrary \<open>x / 0 = 0\<close> of HOL. The two zeros
  are identified: a non-zero finite number divided by zero yields the infinity that has
  the sign of the numerator.

  Numbers that are finite by construction (the fields of the input records, loop
  counters, sums and products of those) are kept as \<open>real\<close> and \<open>nat\<close>; they enter
  the arithmetic of the special values through \<open>Fin\<close>.
\<close>

datatype jsnum = Fin real | PInf | NInf | NaN

instantiation jsnum :: "{plus, minus, uminus, times, inverse, ord}"
begin

fun plus_jsnum :: "jsnum \<Rightarrow> jsnum \<Rightarrow> jsnum" where
  "plus_jsnum (Fin a) (Fin b) = Fin (a + b)"
| "plus_jsnum NaN _ = NaN"
| "plus_jsnum _ NaN = NaN"
| "plus_jsnum PInf NInf = NaN"
| "plus_jsnum NInf PInf = NaN"
| "plus_jsnum PInf _ = PInf"
| "plus_jsnum _ PInf = PInf"
| "plus_jsnum NInf _ = NInf"
| "plus_jsnum _ NInf = NInf"

fun uminus_jsnum :: "jsnum \<Rightarrow> jsnum" where
  "uminus_jsnum (Fin a) = Fin (- a)"
| "uminus_jsnum PInf = NInf"
| "uminus_jsnum NInf = PInf"
| "uminus_jsnum NaN = NaN"

fun minus_jsnum :: "jsnum \<Rightarrow> jsnum \<Rightarrow> jsnum" where
  "minus_jsnum (Fin a) (Fin b) = Fin (a - b)"
| "minus_jsnum NaN _ = NaN"
| "minus_jsnum _ NaN = NaN"
| "minus_jsnum PInf PInf = NaN"
| "minus_jsnum NInf NInf = NaN"
| "minus_jsnum PInf _ = PInf"
| "minus_jsnum _ PInf = NInf"
| "minus_jsnum NInf _ = NInf"
| "minus_jsnum _ NInf = PInf"

fun times_jsnum :: "jsnum \<Rightarrow> jsnum \<Rightarrow> jsnum" where
  "times_jsnum (Fin a) (Fin b) = Fin (a * b)"
| "times_jsnum NaN _ = NaN"
| "times_jsnum _ NaN = NaN"
| "times_jsnum PInf (Fin b) = (if b = 0 then NaN else if 0 < b then PInf else NInf)"
| "times_jsnum NInf (Fin b) = (if b = 0 then NaN else if 0 < b then NInf else PInf)"
| "times_jsnum (Fin a) PInf = (if a = 0 then NaN else if 0 < a then PInf else NInf)"
| "times_jsnum (Fin a) NInf = (if a = 0 then NaN else if 0 < a then NInf else PInf)"
| "times_jsnum PInf PInf = PInf"
| "times_jsnum PInf NInf = NInf"
| "times_jsnum NInf PInf = NInf"
| "times_jsnum NInf NInf = PInf"

fun divide_jsnum :: "jsnum \<Rightarrow> jsnum \<Rightarrow> jsnum" where
  "divide_jsnum (Fin a) (Fin b) =
     (if b \<noteq> 0 then Fin (a / b)
      else if 0 < a then PInf else if a < 0 then NInf else NaN)"
| "divide_jsnum NaN _ = NaN"
| "divide_jsnum _ NaN = NaN"
| "divide_jsnum (Fin a) _ = Fin 0"
| "divide_jsnum PInf (Fin b) = (if 0 \<le> b then PInf else NInf)"
| "divide_jsnum NInf (Fin b) = (if 0 \<le> b then NInf else PInf)"
| "divide_jsnum _ _ = NaN"

definition inverse_jsnum :: "jsnum \<Rightarrow> jsnum" where
  "inverse_jsnum x = divide (Fin 1) x"

text \<open>Every comparison with NaN is false.\<close>

fun less_jsnum :: "jsnum \<Rightarrow> jsnum \<Rightarrow> bool" where
  "less_jsnum (Fin a) (Fin b) = (a < b)"
| "less_jsnum NaN _ = False"
| "less_jsnum _ NaN = False"
| "less_jsnum _ NInf = False"
| "less_jsnum PInf _ = False"
| "less_jsnum _ _ = True"

fun less_eq_jsnum :: "jsnum \<Rightarrow> jsnum \<Rightarrow> bool" where
  "less_eq_jsnum (Fin a) (Fin b) = (a \<le> b)"
| "less_eq_jsnum NaN _ = False"
| "less_eq_jsnum _ NaN = False"
| "less_eq_jsnum NInf _ = True"
| "less_eq_jsnum _ PInf = True"
| "less_eq_jsnum _ _ = False"

instance ..

end

text \<open>\<open>Math.min\<close> of two arguments: NaN as soon as one argument is NaN.\<close>

fun mathMin :: "jsnum \<Rightarrow> jsnum \<Rightarrow> jsnum" where
  "mathMin NaN _ = NaN"
| "mathMin _ NaN = NaN"
| "mathMin a b = (if b < a then b else a)"

text \<open>\<open>Math.round\<close> on a finite number rounds halves towards positive infinity.\<close>

definition mathRound :: "real \<Rightarrow> int" where
  "mathRound x = \<lfloor>x + 1 / 2\<rfloor>"

definition isInteger :: "real \<Rightarrow> bool" where
  "isInteger y = (y = of_int \<lfloor>y\<rfloor>)"

definition isOddInteger :: "real \<Rightarrow> bool" where
  "isOddInteger y = (isInteger y \<and> odd \<lfloor>y\<rfloor>)"

text \<open>\<open>Math.pow\<close>, with the special cases of the ECMAScript definition.\<close>

fun mathPow :: "jsnum \<Rightarrow> jsnum \<Rightarrow> jsnum" where
  "mathPow x (Fin y) =
     (if y = 0 then Fin 1
      else (case x of
          NaN \<Rightarrow> NaN
        | PInf \<Rightarrow> (if 0 < y then PInf else Fin 0)
        | NInf \<Rightarrow> (if 0 < y then (if isOddInteger y then NInf else PInf) else Fin 0)
        | Fin b \<Rightarrow>
            (if 0 < b then Fin (b powr y)
             else if b = 0 then (if 0 < y then Fin 0 else PInf)
             else if isInteger y
               then Fin (if isOddInteger y then - ((- b) powr y) else (- b) powr y)
             else NaN)))"
| "mathPow x NaN = NaN"
| "mathPow x PInf =
     (case x of
        NaN \<Rightarrow> NaN
      | Fin b \<Rightarrow> (if \<bar>b\<bar> = 1 then NaN else if 1 < \<bar>b\<bar> then PInf else Fin 0)
      | _ \<Rightarrow> PInf)"
| "mathPow x NInf =
     (case x of
        NaN \<Rightarrow> NaN
      | Fin b \<Rightarrow> (if \<bar>b\<bar> = 1 then NaN else if 1 < \<bar>b\<bar> then Fin 0 else PInf)
      | _ \<Rightarrow> Fin 0)"

text \<open>\<open>Number.isFinite\<close>: neither NaN nor an infinity.\<close>

fun isFinite :: "jsnum \<Rightarrow> bool" where
  "isFinite (Fin x) = True"
| "isFinite x = False"

section \<open>Printing integers\<close>

text \<open>Template literals print an integral number in decimal.\<close>

definition digitChar :: "nat \<Rightarrow> char" where
  "digitChar d = ''0123456789'' ! d"

function showNat :: "nat \<Rightarrow> string" where
  "showNat n = (if n < 10 then [digitChar n] else showNat (n div 10) @ [digitChar (n mod 10)])"
  by pat_completeness auto
termination
  by (relation "measure id") auto

declare showNat.simps [simp del]

definition showInt :: "int \<Rightarrow> string" where
  "showInt i = (if i < 0 then CHR ''-'' # showNat (nat (- i)) else showNat (nat i))"

section \<open>Data model\<close>

text \<open>
  The types of \<open>shared/enhanced-types.ts\<close>, and the shapes of \<open>PortfolioCompany\<close>,
  \<open>TimelineMetrics\<close> and \<open>WaterfallSummary\<close> as the service builds them.
\<close>

datatype FundStage = PreSeed | Seed | SeriesA | SeriesB | SeriesC | SeriesDPlus

fun stageName :: "FundStage \<Rightarrow> string" where
  "stageName PreSeed = ''Pre-Seed''"
| "stageName Seed = ''Seed''"
| "stageName SeriesA = ''Series A''"
| "stageName SeriesB = ''Series B''"
| "stageName SeriesC = ''Series C''"
| "stageName SeriesDPlus = ''Series D+''"

datatype CompanyStatus = Active | Exited | WrittenOff

datatype Currency = USD | EUR | GBP

datatype FeeBase = Committed | Invested | Custom

record StageStrategy =
  stage :: FundStage
  allocationPercent :: real
  checkSize :: real
  targetCompanies :: real
  followOnPercent :: real
  targetOwnership :: real
  entryValuation :: real
  reserveRatio :: "real option"

record StageExitProbabilities =
  great :: real
  good :: real
  mediocre :: real
  failure :: real

type_synonym ExitProbabilityMatrix = "FundStage \<Rightarrow> StageExitProbabilities"

text \<open>A row of the graduation matrix maps the names of its outcomes to probabilities.\<close>

type_synonym GraduationMatrix = "FundStage \<Rightarrow> (string \<times> real) list"

text \<open>The vintage is a calendar year, hence an integer.\<close>

record EnhancedFundInputs =
  fundName :: string
  fundSize :: real
  currency :: "Currency option"
  vintage :: "int option"
  managementFeeRate :: real
  carryRate :: real
  gpCommitment :: real
  hurdleRate :: real
  catchUpRate :: "real option"
  investmentPeriodYears :: real
  fundLifeYears :: real
  extensionYears :: "real option"
  stageStrategies :: "StageStrategy list"
  graduationMatrix :: GraduationMatrix
  exitProbabilityMatrix :: ExitProbabilityMatrix
  recyclingEnabled :: "bool option"
  recyclingCap :: "real option"
  europeanWaterfall :: "bool option"
  managementFeeBase :: "FeeBase option"

text \<open>
  Field names that HOL already uses carry a prime (\<open>round'\<close>, \<open>id'\<close>). The fields of
  \<open>ForecastResult\<close> that share their names with fields of \<open>TimelineMetrics\<close> are
  prefixed with \<open>fr\<close>, and \<open>capitalCalled\<close> of \<open>FundMetrics\<close> with \<open>fm\<close>; the nested
  \<open>irr\<close> and \<open>moic\<close> objects are flattened.
\<close>

record Investment =
  round' :: FundStage
  amount :: real
  date :: nat
  ownership :: real
  valuation :: real

record CompanyMetrics =
  revenue :: real
  growth :: real
  runway :: real

record PortfolioCompany =
  id' :: string
  name :: string
  currentStage :: FundStage
  investments :: "Investment list"
  currentValuation :: real
  status :: CompanyStatus
  metrics :: CompanyMetrics

record TimelineMetrics =
  quarter :: nat
  quarterLabel :: string
  capitalDeployed :: jsnum
  capitalCalled :: jsnum
  distributions :: jsnum
  netCashFlow :: jsnum
  cumulativeCashFlow :: jsnum
  totalInvested :: jsnum
  totalDistributed :: jsnum
  portfolioValue :: jsnum
  nav :: jsnum
  dpi :: jsnum
  rvpi :: jsnum
  tvpi :: jsnum
  grossMOIC :: jsnum
  netMOIC :: jsnum
  grossIRR :: jsnum
  netIRR :: jsnum
  managementFees :: jsnum
  carriedInterest :: jsnum

record WaterfallSummary =
  totalDistributions :: jsnum
  lpDistributions :: jsnum
  gpDistributions :: jsnum
  preferredReturn :: jsnum
  carryPaid :: jsnum
  catchUpPaid :: jsnum
  lpShare :: jsnum
  gpShare :: jsnum
  effectiveCarry :: jsnum

record FundMetrics =
  fmCapitalCalled :: jsnum
  capitalDistributed :: jsnum
  capitalRemaining :: jsnum
  dryPowder :: jsnum
  totalValue :: jsnum
  netAssetValue :: jsnum
  totalManagementFees :: jsnum
  totalCarriedInterest :: jsnum
  lpNetProceeds :: jsnum
  gpTotalCompensation :: jsnum

record ForecastResult =
  frPortfolio :: "PortfolioCompany list"
  frTimeline :: "TimelineMetrics list"
  frWaterfall :: WaterfallSummary
  frIrrGross :: jsnum
  frIrrNet :: jsnum
  frMoicGross :: jsnum
  frMoicNet :: jsnum
  frDpi :: jsnum
  frRvpi :: jsnum
  frTvpi :: jsnum
  frTotalInvested :: jsnum
  frTotalDistributed :: jsnum
  frPortfolioValue :: jsnum
  frManagementFees :: jsnum
  frCarriedInterest :: jsnum
  recycledCapital :: "jsnum option"
  fundMetrics :: "FundMetrics option"

text \<open>A thrown exception is a value: the kind of the exception and its message.\<close>

datatype error = Error string | TypeError string

fun message :: "error \<Rightarrow> string" where
  "message (Error m) = m"
| "message (TypeError m) = m"

section \<open>The fund-forecast service\<close>

subsection \<open>Validation and the forecast entry point\<close>

text \<open>\<open>validateInputs\<close> throws at the first check that fails.\<close>

definition validateInputs :: "EnhancedFundInputs \<Rightarrow> error + unit" where
  "validateInputs inputs =
     (if fundSize inputs \<le> 0 then Inl (Error ''Fund size must be greater than 0'')
      else if managementFeeRate inputs < 0 \<or> managementFeeRate inputs > 0.1
        then Inl (Error ''Management fee rate must be between 0% and 10%'')
      else if carryRate inputs < 0 \<or> carryRate inputs > 0.5
        then Inl (Error ''Carry rate must be between 0% and 50%'')
      else
        (let totalAllocation =
               foldl (\<lambda>sum s. sum + allocationPercent s) 0 (stageStrategies inputs)
         in if \<bar>totalAllocation - 1\<bar> > 0.001
            then Inl (Error ''Stage allocations must sum to 100%'')
            else Inr ()))"

definition postProcessForecast :: "ForecastResult \<Rightarrow> EnhancedFundInputs \<Rightarrow> ForecastResult" where
  "postProcessForecast forecast inputs =
     forecast\<lparr>fundMetrics := Some
       \<lparr>fmCapitalCalled = frTotalInvested forecast * Fin 1.1,
        capitalDistributed = frTotalDistributed forecast,
        capitalRemaining = Fin (fundSize inputs * 1000000) - frTotalInvested forecast,
        dryPowder = Fin (fundSize inputs * 1000000) - frTotalInvested forecast,
        totalValue = frTotalDistributed forecast + frPortfolioValue forecast,
        netAssetValue = frPortfolioValue forecast,
        totalManagementFees = frManagementFees forecast,
        totalCarriedInterest = frCarriedInterest forecast,
        lpNetProceeds = frTotalDistributed forecast - frCarriedInterest forecast,
        gpTotalCompensation = frManagementFees forecast + frCarriedInterest forecast\<rparr>\<rparr>"

text \<open>
  \<open>runForecast\<close> hands the validated inputs to the cohort engine of
  \<open>core/enhanced-cohort-engine\<close>. The engine is a parameter here: \<open>engine inputs\<close>
  is the outcome of constructing it on the inputs and calling \<open>generateForecast\<close>,
  either the exception thrown or the forecast. Whatever is thrown inside the \<open>try\<close>
  block is caught and thrown again as an \<open>Error\<close> with a prefixed message; the
  rejected promise is the left summand.
\<close>

definition runForecast ::
  "(EnhancedFundInputs \<Rightarrow> error + ForecastResult) \<Rightarrow> EnhancedFundInputs \<Rightarrow> error + ForecastResult"
where
  "runForecast engine inputs =
     (case validateInputs inputs of
        Inl e \<Rightarrow> Inl (Error (''Forecast failed: '' @ message e))
      | Inr _ \<Rightarrow>
          (case engine inputs of
             Inl e \<Rightarrow> Inl (Error (''Forecast failed: '' @ message e))
           | Inr forecast \<Rightarrow> Inr (postProcessForecast forecast inputs)))"

subsection \<open>Portfolio generation\<close>

text \<open>
  \<open>new Date()\<close> reads the clock: \<open>clock k\<close> is the time read when the company
  numbered \<open>k\<close> is created.
\<close>

definition newCompany :: "(nat \<Rightarrow> nat) \<Rightarrow> StageStrategy \<Rightarrow> nat \<Rightarrow> nat \<Rightarrow> PortfolioCompany" where
  "newCompany clock strategy i companyId =
     \<lparr>id' = ''company-'' @ showNat companyId,
      name = stageName (stage strategy) @ '' Company '' @ showNat (i + 1),
      currentStage = stage strategy,
      investments =
        [\<lparr>round' = stage strategy,
          amount = checkSize strategy,
          date = clock companyId,
          ownership = targetOwnership strategy,
          valuation = entryValuation strategy\<rparr>],
      currentValuation = entryValuation strategy * (1 + targetOwnership strategy),
      status = Active,
      metrics = \<lparr>revenue = 0, growth = 0, runway = 18\<rparr>\<rparr>"

text \<open>
  The inner \<open>for\<close> loop, on the portfolio built so far and the next company number.
\<close>

function stageLoop ::
  "(nat \<Rightarrow> nat) \<Rightarrow> StageStrategy \<Rightarrow> int \<Rightarrow> nat \<Rightarrow> PortfolioCompany list \<times> nat
     \<Rightarrow> PortfolioCompany list \<times> nat"
where
  "stageLoop clock strategy companiesInStage i (portfolio, companyId) =
     (if int i < companiesInStage
      then stageLoop clock strategy companiesInStage (Suc i)
             (portfolio @ [newCompany clock strategy i companyId], Suc companyId)
      else (portfolio, companyId))"
  by pat_completeness auto
termination
  by (relation "measure (\<lambda>(clock, strategy, n, i, st). nat (n - int i))") auto

declare stageLoop.simps [simp del]

definition generatePortfolio :: "(nat \<Rightarrow> nat) \<Rightarrow> EnhancedFundInputs \<Rightarrow> PortfolioCompany list" where
  "generatePortfolio clock inputs =
     fst (foldl
            (\<lambda>st strategy.
               (let companiesInStage = mathRound (targetCompanies strategy)
                in stageLoop clock strategy companiesInStage 0 st))
            ([], 1) (stageStrategies inputs))"

subsection \<open>The quarterly helpers\<close>

definition calculateQuarterlyDeployment ::
  "nat \<Rightarrow> real \<Rightarrow> real \<Rightarrow> PortfolioCompany list \<Rightarrow> jsnum"
where
  "calculateQuarterlyDeployment q investmentQuarters totalCapital portfolio =
     (if real q \<ge> investmentQuarters then Fin 0
      else
        (let baseDeployment = Fin (totalCapital * 0.6) / Fin investmentQuarters;
             variance = sin (real q * 0.5) * 0.2
         in baseDeployment * Fin (1 + variance)))"

definition calculateQuarterlyDistributions ::
  "nat \<Rightarrow> PortfolioCompany list \<Rightarrow> EnhancedFundInputs \<Rightarrow> jsnum"
where
  "calculateQuarterlyDistributions q portfolio inputs =
     (if q < 12 then Fin 0
      else
        (let exitRate = 0.05;
             avgMultiple = 3.0;
             avgInvestment = Fin (fundSize inputs * 1000000) / Fin (real (length portfolio))
         in avgInvestment * Fin avgMultiple * Fin exitRate * Fin (real (length portfolio))))"

definition calculateQuarterlyFees :: "jsnum \<Rightarrow> real \<Rightarrow> nat \<Rightarrow> real \<Rightarrow> jsnum" where
  "calculateQuarterlyFees investedCapital feeRate q investmentQuarters =
     (if real q < investmentQuarters then Fin (feeRate / 4)
      else investedCapital * Fin feeRate / Fin 4)"

definition calculateNAV :: "PortfolioCompany list \<Rightarrow> nat \<Rightarrow> jsnum" where
  "calculateNAV portfolio q =
     foldl
       (\<lambda>sum company.
          if status company = Active
          then (let quartersSinceInvestment = real q;
                    appreciation = mathPow (Fin 1.15) (Fin (quartersSinceInvestment / 4))
                in sum + Fin (currentValuation company) * appreciation)
          else sum)
       (Fin 0) portfolio"

text \<open>
  \<open>calculateIRRs\<close> reads the last record; on an empty timeline that read is a
  property access on \<open>undefined\<close>, a \<open>TypeError\<close>. It then overwrites the two
  rates in every record.
\<close>

definition calculateIRRs :: "TimelineMetrics list \<Rightarrow> error + TimelineMetrics list" where
  "calculateIRRs timeline =
     (if timeline = []
      then Inl (TypeError ''Cannot read properties of undefined'')
      else
        (let totalIn = totalInvested (last timeline);
             totalOut = totalDistributed (last timeline) + portfolioValue (last timeline);
             years = Fin (real (length timeline)) / Fin 4;
             grossMOIC' = totalOut / totalIn;
             grossIRR' = mathPow grossMOIC' (Fin 1 / years) - Fin 1
         in Inr (map (\<lambda>t. t\<lparr>grossIRR := grossIRR', netIRR := grossIRR' * Fin 0.8\<rparr>) timeline)))"

subsection \<open>The timeline\<close>

text \<open>The variables that the quarterly loop of \<open>calculateTimeline\<close> updates.\<close>

record TimelineVars =
  timeline :: "TimelineMetrics list"
  cumulativeInvested :: jsnum
  cumulativeDistributed :: jsnum
  cumulativeFees :: jsnum
  cumulativeCarry :: jsnum

definition quarterLabelOf :: "nat \<Rightarrow> int option \<Rightarrow> string" where
  "quarterLabelOf q v =
     ''Q'' @ showNat (q mod 4 + 1) @ '' '' @
       (case v of None \<Rightarrow> ''NaN'' | Some y \<Rightarrow> showInt (int (q div 4) + y))"

text \<open>The body of the loop, for one quarter.\<close>

definition timelineStep ::
  "PortfolioCompany list \<Rightarrow> EnhancedFundInputs \<Rightarrow> real \<Rightarrow> nat \<Rightarrow> TimelineVars \<Rightarrow> TimelineVars"
where
  "timelineStep portfolio inputs investmentQuarters q vars =
     (let deployment =
            calculateQuarterlyDeployment q investmentQuarters (fundSize inputs * 1000000) portfolio;
          cumulativeInvested' = cumulativeInvested vars + deployment;
          distributions' = calculateQuarterlyDistributions q portfolio inputs;
          cumulativeDistributed' = cumulativeDistributed vars + distributions';
          fees =
            calculateQuarterlyFees cumulativeInvested' (managementFeeRate inputs) q investmentQuarters;
          cumulativeFees' = cumulativeFees vars + fees;
          nav' = calculateNAV portfolio q;
          capitalCalled' = cumulativeInvested' + cumulativeFees'
      in vars
          \<lparr>timeline := timeline vars @
             [\<lparr>quarter = q,
               quarterLabel = quarterLabelOf q (vintage inputs),
               capitalDeployed = deployment,
               capitalCalled = deployment + fees,
               distributions = distributions',
               netCashFlow = distributions' - (deployment + fees),
               cumulativeCashFlow = cumulativeDistributed' - capitalCalled',
               totalInvested = cumulativeInvested',
               totalDistributed = cumulativeDistributed',
               portfolioValue = nav',
               nav = nav',
               dpi = (if Fin 0 < capitalCalled' then cumulativeDistributed' / capitalCalled' else Fin 0),
               rvpi = (if Fin 0 < capitalCalled' then nav' / capitalCalled' else Fin 0),
               tvpi = (if Fin 0 < capitalCalled'
                       then (cumulativeDistributed' + nav') / capitalCalled' else Fin 0),
               grossMOIC = (if Fin 0 < cumulativeInvested'
                            then (cumulativeDistributed' + nav') / cumulativeInvested' else Fin 0),
               netMOIC = (if Fin 0 < capitalCalled'
                          then (cumulativeDistributed' + nav' - cumulativeCarry vars) / capitalCalled'
                          else Fin 0),
               grossIRR = Fin 0,
               netIRR = Fin 0,
               managementFees = fees,
               carriedInterest = Fin 0\<rparr>],
           cumulativeInvested := cumulativeInvested',
           cumulativeDistributed := cumulativeDistributed',
           cumulativeFees := cumulativeFees'\<rparr>)"

function timelineLoop ::
  "PortfolioCompany list \<Rightarrow> EnhancedFundInputs \<Rightarrow> real \<Rightarrow> real \<Rightarrow> nat \<Rightarrow> TimelineVars
     \<Rightarrow> TimelineVars"
where
  "timelineLoop portfolio inputs totalQuarters investmentQuarters q vars =
     (if real q < totalQuarters
      then timelineLoop portfolio inputs totalQuarters investmentQuarters (Suc q)
             (timelineStep portfolio inputs investmentQuarters q vars)
      else vars)"
  by pat_completeness auto
termination
  by (relation "measure (\<lambda>(portfolio, inputs, tq, iq, q, vars). nat \<lceil>tq\<rceil> - q)")
     (auto, linarith)

declare timelineLoop.simps [simp del]

definition calculateTimeline ::
  "PortfolioCompany list \<Rightarrow> EnhancedFundInputs \<Rightarrow> error + TimelineMetrics list"
where
  "calculateTimeline portfolio inputs =
     (let totalQuarters = fundLifeYears inputs * 4;
          investmentQuarters = investmentPeriodYears inputs * 4;
          vars = timelineLoop portfolio inputs totalQuarters investmentQuarters 0
                   \<lparr>timeline = [],
                    cumulativeInvested = Fin 0,
                    cumulativeDistributed = Fin 0,
                    cumulativeFees = Fin 0,
                    cumulativeCarry = Fin 0\<rparr>
      in calculateIRRs (timeline vars))"

subsection \<open>The waterfall\<close>

definition calculateWaterfall :: "jsnum \<Rightarrow> jsnum \<Rightarrow> EnhancedFundInputs \<Rightarrow> WaterfallSummary" where
  "calculateWaterfall totalDistributions' totalInvested' inputs =
     (let totalCapitalCalled = totalInvested' / (Fin 1 - Fin (gpCommitment inputs));
          lpCapitalCalled = totalCapitalCalled * (Fin 1 - Fin (gpCommitment inputs));
          remainingDistributions = totalDistributions';
          lpDistributions' = Fin 0;
          gpDistributions' = Fin 0;
          carriedInterest' = Fin 0;
          capitalReturn = mathMin remainingDistributions lpCapitalCalled;
          lpDistributions' = lpDistributions' + capitalReturn;
          remainingDistributions = remainingDistributions - capitalReturn;
          preferredReturn' =
            lpCapitalCalled * Fin (hurdleRate inputs) * Fin (fundLifeYears inputs * 0.7);
          prefReturn = mathMin remainingDistributions preferredReturn';
          lpDistributions' = lpDistributions' + prefReturn;
          remainingDistributions = remainingDistributions - prefReturn;
          (carriedInterest', gpDistributions', lpDistributions') =
            (if Fin 0 < remainingDistributions
             then (let carriedInterest' = remainingDistributions * Fin (carryRate inputs)
                   in (carriedInterest',
                       gpDistributions' + carriedInterest',
                       lpDistributions' + (remainingDistributions - carriedInterest')))
             else (carriedInterest', gpDistributions', lpDistributions'))
      in \<lparr>totalDistributions = totalDistributions',
          lpDistributions = lpDistributions',
          gpDistributions = gpDistributions',
          preferredReturn = prefReturn,
          carryPaid = carriedInterest',
          catchUpPaid = Fin 0,
          lpShare = (if Fin 0 < totalDistributions'
                     then lpDistributions' / totalDistributions' else Fin 0),
          gpShare = (if Fin 0 < totalDistributions'
                     then gpDistributions' / totalDistributions' else Fin 0),
          effectiveCarry = (if totalCapitalCalled < totalDistributions'
                            then carriedInterest' / (totalDistributions' - totalCapitalCalled)
                            else Fin 0)\<rparr>)"

subsection \<open>The loop, iteration by iteration\<close>

text \<open>
  The variables of the quarterly loop after its first \<open>n\<close> iterations: the initial
  values, and the body applied to quarters \<open>0\<close> to \<open>n - 1\<close> in turn.
\<close>

primrec timelineVarsAfter ::
  "PortfolioCompany list \<Rightarrow> EnhancedFundInputs \<Rightarrow> nat \<Rightarrow> TimelineVars"
where
  "timelineVarsAfter portfolio inputs 0 =
     \<lparr>timeline = [],
      cumulativeInvested = Fin 0,
      cumulativeDistributed = Fin 0,
      cumulativeFees = Fin 0,
      cumulativeCarry = Fin 0\<rparr>"
| "timelineVarsAfter portfolio inputs (Suc n) =
     timelineStep portfolio inputs (investmentPeriodYears inputs * 4) n
       (timelineVarsAfter portfolio inputs n)"

section \<open>Reference inputs\<close>

text \<open>
  A 50M fund with a five-year investment period, a ten-year life, a 2% fee, 20% carry,
  an 8% hurdle, a full catch-up, and the single stage Seed at 100% allocation with ten
  target companies and checks of 1M.
\<close>

definition seedStrategy :: StageStrategy where
  "seedStrategy =
     \<lparr>stage = Seed, allocationPercent = 1, checkSize = 1000000, targetCompanies = 10,
      followOnPercent = 0.5, targetOwnership = 0.1, entryValuation = 10000000,
      reserveRatio = None\<rparr>"

definition seedFund :: EnhancedFundInputs where
  "seedFund =
     \<lparr>fundName = ''Seed Fund'', fundSize = 50, currency = Some USD, vintage = Some 2024,
      managementFeeRate = 0.02, carryRate = 0.2, gpCommitment = 0.02, hurdleRate = 0.08,
      catchUpRate = Some 1, investmentPeriodYears = 5, fundLifeYears = 10,
      extensionYears = None, stageStrategies = [seedStrategy],
      graduationMatrix = (\<lambda>s. [(''Exit'', 0.5), (''Failed'', 0.5)]),
      exitProbabilityMatrix =
        (\<lambda>s. \<lparr>great = 0.05, good = 0.15, mediocre = 0.3, failure = 0.5\<rparr>),
      recyclingEnabled = None, recyclingCap = None, europeanWaterfall = None,
      managementFeeBase = None\<rparr>"



text \<open>Rows that sum to 4.\<close>

definition fourfold :: ExitProbabilityMatrix where
  "fourfold s = \<lparr>great = 1, good = 1, mediocre = 1, failure = 1\<rparr>"

text \<open>The sum of a row of the exit-probability matrix.\<close>

definition exitRowSum :: "StageExitProbabilities \<Rightarrow> real" where
  "exitRowSum p = great p + good p + mediocre p + failure p"

text \<open>A clock that stands still, and an engine that returns a fixed forecast.\<close>

definition stillClock :: "nat \<Rightarrow> nat" where
  "stillClock k = 0"

definition fixedForecast :: ForecastResult where
  "fixedForecast =
     \<lparr>frPortfolio = [], frTimeline = [],
      frWaterfall = calculateWaterfall (Fin 0) (Fin 0) seedFund,
      frIrrGross = Fin 0, frIrrNet = Fin 0, frMoicGross = Fin 0, frMoicNet = Fin 0,
      frDpi = Fin 0, frRvpi = Fin 0, frTvpi = Fin 0,
      frTotalInvested = Fin 0, frTotalDistributed = Fin 0, frPortfolioValue = Fin 0,
      frManagementFees = Fin 0, frCarriedInterest = Fin 0,
      recycledCapital = None, fundMetrics = None\<rparr>"

definition fixedEngine :: "EnhancedFundInputs \<Rightarrow> error + ForecastResult" where
  "fixedEngine inputs = Inr fixedForecast"

section \<open>The waterfall distributes everything\<close>

lemma mathMin_Fin [simp]: "mathMin (Fin a) (Fin b) = Fin (min a b)"
  by (simp add: min_def)

text \<open>
  Claim C1. For every total of distributions that is at least 0 and every input whose
  GP commitment is below 1, the summary that \<open>calculateWaterfall\<close> returns satisfies
  \<open>lpDistributions + gpDistributions = totalDistributions\<close>, in exact arithmetic.
\<close>

theorem waterfall_conserves_distributions:
  assumes "0 \<le> td" and "gpCommitment inputs < 1"
  shows "lpDistributions (calculateWaterfall (Fin td) (Fin ti) inputs)
           + gpDistributions (calculateWaterfall (Fin td) (Fin ti) inputs)
         = totalDistributions (calculateWaterfall (Fin td) (Fin ti) inputs)
       \<and> totalDistributions (calculateWaterfall (Fin td) (Fin ti) inputs) = Fin td"
  using assms
  by (simp add: calculateWaterfall_def Let_def min_def algebra_simps)

theorem waterfall_conserves_distributions_witness:
  "(0::real) \<le> 210000000 \<and> gpCommitment seedFund < 1
   \<and> lpDistributions (calculateWaterfall (Fin 210000000) (Fin 30000000) seedFund)
        + gpDistributions (calculateWaterfall (Fin 210000000) (Fin 30000000) seedFund)
      = Fin 210000000"
  using waterfall_conserves_distributions [of 210000000 seedFund 30000000]
  by (simp add: seedFund_def)

section \<open>The waterfall has no catch-up tier\<close>


lemma Fin_zero_plus [simp]: "Fin 0 + x = x"
  by (cases x) simp_all





section \<open>Management fees\<close>

text \<open>
  Claim C3. During the investment period the quarterly fee should be a quarter of the
  fee rate applied to the committed capital, 250000 for the reference fund. The code
  returns a quarter of the bare rate.
\<close>

theorem quarterly_fee_ignores_committed_capital:
  "calculateQuarterlyFees (Fin 1500000) (managementFeeRate seedFund) 0
       (investmentPeriodYears seedFund * 4) = Fin 0.005
   \<and> Fin 0.005 \<noteq> Fin (fundSize seedFund * 1000000 * (managementFeeRate seedFund / 4))"
  by (simp add: calculateQuarterlyFees_def seedFund_def)

section \<open>Validation before the forecast\<close>

lemma foldl_allocations:
  "foldl (\<lambda>sum s. sum + allocationPercent s) a ss = a + (\<Sum>s\<leftarrow>ss. allocationPercent s)"
  by (induction ss arbitrary: a) simp_all

lemma validateInputs_eq:
  "validateInputs inputs =
     (if fundSize inputs \<le> 0 then Inl (Error ''Fund size must be greater than 0'')
      else if managementFeeRate inputs < 0 \<or> managementFeeRate inputs > 0.1
        then Inl (Error ''Management fee rate must be between 0% and 10%'')
      else if carryRate inputs < 0 \<or> carryRate inputs > 0.5
        then Inl (Error ''Carry rate must be between 0% and 50%'')
      else if \<bar>(\<Sum>s\<leftarrow>stageStrategies inputs. allocationPercent s) - 1\<bar> > 0.001
        then Inl (Error ''Stage allocations must sum to 100%'')
      else Inr ())"
  by (simp add: validateInputs_def Let_def foldl_allocations)

text \<open>
  A fund of size 0 whose allocations and exit rows sum to 1 and whose investment period
  fits in its life is rejected; an investment period beyond the fund life, and exit rows
  that sum to 4, pass the validation.
\<close>

theorem runForecast_validation_counterexample:
  "\<bar>(\<Sum>s\<leftarrow>stageStrategies (seedFund\<lparr>fundSize := 0\<rparr>). allocationPercent s) - 1\<bar> \<le> 0.001
   \<and> exitRowSum (exitProbabilityMatrix (seedFund\<lparr>fundSize := 0\<rparr>) PreSeed) = 1
   \<and> exitRowSum (exitProbabilityMatrix (seedFund\<lparr>fundSize := 0\<rparr>) Seed) = 1
   \<and> exitRowSum (exitProbabilityMatrix (seedFund\<lparr>fundSize := 0\<rparr>) SeriesA) = 1
   \<and> exitRowSum (exitProbabilityMatrix (seedFund\<lparr>fundSize := 0\<rparr>) SeriesB) = 1
   \<and> exitRowSum (exitProbabilityMatrix (seedFund\<lparr>fundSize := 0\<rparr>) SeriesC) = 1
   \<and> exitRowSum (exitProbabilityMatrix (seedFund\<lparr>fundSize := 0\<rparr>) SeriesDPlus) = 1
   \<and> investmentPeriodYears (seedFund\<lparr>fundSize := 0\<rparr>) \<le> fundLifeYears (seedFund\<lparr>fundSize := 0\<rparr>)
   \<and> runForecast fixedEngine (seedFund\<lparr>fundSize := 0\<rparr>)
        = Inl (Error ''Forecast failed: Fund size must be greater than 0'')
   \<and> investmentPeriodYears (seedFund\<lparr>investmentPeriodYears := 11\<rparr>)
        > fundLifeYears (seedFund\<lparr>investmentPeriodYears := 11\<rparr>)
   \<and> validateInputs (seedFund\<lparr>investmentPeriodYears := 11\<rparr>) = Inr ()
   \<and> exitRowSum (exitProbabilityMatrix (seedFund\<lparr>exitProbabilityMatrix := fourfold\<rparr>) Seed) = 4
   \<and> validateInputs (seedFund\<lparr>exitProbabilityMatrix := fourfold\<rparr>) = Inr ()"
  by (simp add: validateInputs_eq runForecast_def seedFund_def seedStrategy_def exitRowSum_def
        fourfold_def)

text \<open>
  Claim C2, as the code has it. \<open>runForecast\<close> fails with an \<open>Error\<close> whose message
  starts with \<open>Forecast failed: \<close>, whatever the engine is, whenever the stage
  allocations sum to more than 0.001 away from 1, and also whenever the fund size is not
  positive, the management fee rate is outside 0 to 0.1 or the carry rate is outside 0
  to 0.5. For inputs that pass these checks, whose exit-probability rows each sum to 1
  within 0.001 and whose investment period does not exceed the fund life, the outcome is
  that of the engine: its forecast, post-processed, or its exception thrown again.
\<close>

theorem runForecast_validation:
  "(fundSize inputs \<le> 0
      \<or> managementFeeRate inputs < 0 \<or> managementFeeRate inputs > 0.1
      \<or> carryRate inputs < 0 \<or> carryRate inputs > 0.5
      \<or> \<bar>(\<Sum>s\<leftarrow>stageStrategies inputs. allocationPercent s) - 1\<bar> > 0.001
     \<longrightarrow> (\<exists>m. \<forall>engine. runForecast engine inputs = Inl (Error (''Forecast failed: '' @ m))))
   \<and> (\<not> (fundSize inputs \<le> 0
      \<or> managementFeeRate inputs < 0 \<or> managementFeeRate inputs > 0.1
      \<or> carryRate inputs < 0 \<or> carryRate inputs > 0.5
      \<or> \<bar>(\<Sum>s\<leftarrow>stageStrategies inputs. allocationPercent s) - 1\<bar> > 0.001)
      \<and> (\<forall>s. \<bar>exitRowSum (exitProbabilityMatrix inputs s) - 1\<bar> \<le> 0.001)
      \<and> investmentPeriodYears inputs \<le> fundLifeYears inputs
     \<longrightarrow> runForecast engine inputs =
           (case engine inputs of
              Inl e \<Rightarrow> Inl (Error (''Forecast failed: '' @ message e))
            | Inr forecast \<Rightarrow> Inr (postProcessForecast forecast inputs)))"
  by (auto simp add: validateInputs_eq runForecast_def)

theorem runForecast_validation_witness:
  "fundSize (seedFund\<lparr>fundSize := 0\<rparr>) \<le> 0
   \<and> (\<exists>m. \<forall>engine. runForecast engine (seedFund\<lparr>fundSize := 0\<rparr>)
                        = Inl (Error (''Forecast failed: '' @ m)))
   \<and> \<not> (fundSize seedFund \<le> 0
          \<or> managementFeeRate seedFund < 0 \<or> managementFeeRate seedFund > 0.1
          \<or> carryRate seedFund < 0 \<or> carryRate seedFund > 0.5
          \<or> \<bar>(\<Sum>s\<leftarrow>stageStrategies seedFund. allocationPercent s) - 1\<bar> > 0.001)
   \<and> (\<forall>s. \<bar>exitRowSum (exitProbabilityMatrix seedFund s) - 1\<bar> \<le> 0.001)
   \<and> investmentPeriodYears seedFund \<le> fundLifeYears seedFund
   \<and> runForecast fixedEngine seedFund = Inr (postProcessForecast fixedForecast seedFund)"
proof -
  have bad: "fundSize (seedFund\<lparr>fundSize := 0\<rparr>) \<le> 0"
    by simp
  have good: "\<not> (fundSize seedFund \<le> 0
          \<or> managementFeeRate seedFund < 0 \<or> managementFeeRate seedFund > 0.1
          \<or> carryRate seedFund < 0 \<or> carryRate seedFund > 0.5
          \<or> \<bar>(\<Sum>s\<leftarrow>stageStrategies seedFund. allocationPercent s) - 1\<bar> > 0.001)"
    by (simp add: seedFund_def seedStrategy_def)
  have rows: "\<forall>s. \<bar>exitRowSum (exitProbabilityMatrix seedFund s) - 1\<bar> \<le> 0.001"
    by (simp add: seedFund_def exitRowSum_def)
  have life: "investmentPeriodYears seedFund \<le> fundLifeYears seedFund"
    by (simp add: seedFund_def)
  from runForecast_validation [of "seedFund\<lparr>fundSize := 0\<rparr>" fixedEngine] bad
  have "\<exists>m. \<forall>engine. runForecast engine (seedFund\<lparr>fundSize := 0\<rparr>)
                        = Inl (Error (''Forecast failed: '' @ m))"
    by blast
  moreover from runForecast_validation [of seedFund fixedEngine] good rows life
  have "runForecast fixedEngine seedFund
          = (case fixedEngine seedFund of
               Inl e \<Rightarrow> Inl (Error (''Forecast failed: '' @ message e))
             | Inr forecast \<Rightarrow> Inr (postProcessForecast forecast seedFund))"
    by blast
  then have "runForecast fixedEngine seedFund = Inr (postProcessForecast fixedForecast seedFund)"
    by (simp add: fixedEngine_def)
  ultimately show ?thesis
    using bad good rows life by blast
qed

section \<open>Portfolio generation\<close>

lemma stageLoop_none:
  "n \<le> 0 \<Longrightarrow> stageLoop clock strategy n 0 st = st"
  by (cases st) (simp add: stageLoop.simps)

lemma stageLoop_eq:
  "stageLoop clock s n i (pf, cid) =
     (pf @ map (\<lambda>j. newCompany clock s (i + j) (cid + j)) [0..<nat n - i], cid + (nat n - i))"
proof (induction clock s n i "(pf, cid)" arbitrary: pf cid rule: stageLoop.induct)
  case (1 clock s n i pf cid)
  show ?case
  proof (cases "int i < n")
    case True
    then have "nat n - i = Suc (nat n - Suc i)" by linarith
    with True "1" show ?thesis
      by (subst stageLoop.simps) (simp add: map_upt_Suc del: upt_Suc)
  next
    case False
    then have "nat n - i = 0" by linarith
    with False show ?thesis
      by (subst stageLoop.simps) simp
  qed
qed

lemma stageLoop_cohort:
  "stageLoop clock s n 0 (pf, cid) =
     (pf @ map (\<lambda>j. newCompany clock s j (cid + j)) [0..<nat n], cid + nat n)"
  by (simp add: stageLoop_eq)

lemma fold_segments:
  assumes P: "\<And>s cid. P s (map (\<lambda>j. newCompany clock s j (cid + j))
                              [0..<nat (mathRound (targetCompanies s))])"
  shows "\<exists>segs.
           foldl (\<lambda>st strategy.
                    (let companiesInStage = mathRound (targetCompanies strategy)
                     in stageLoop clock strategy companiesInStage 0 st)) (pf, cid) ss
             = (pf @ concat segs, cid + length (concat segs))
           \<and> length segs = length ss
           \<and> (\<forall>k<length ss. P (ss ! k) (segs ! k))"
proof (induction ss arbitrary: pf cid)
  case Nil
  show ?case by simp
next
  case (Cons s ss)
  define seg where
    "seg = map (\<lambda>j. newCompany clock s j (cid + j)) [0..<nat (mathRound (targetCompanies s))]"
  obtain segs where segs:
    "foldl (\<lambda>st strategy.
              (let companiesInStage = mathRound (targetCompanies strategy)
               in stageLoop clock strategy companiesInStage 0 st)) (pf @ seg, cid + length seg) ss
       = ((pf @ seg) @ concat segs, (cid + length seg) + length (concat segs))"
    "length segs = length ss" "\<forall>k<length ss. P (ss ! k) (segs ! k)"
    using Cons.IH [of "pf @ seg" "cid + length seg"] by blast
  have step: "stageLoop clock s (mathRound (targetCompanies s)) 0 (pf, cid)
      = (pf @ seg, cid + length seg)"
    by (simp add: stageLoop_cohort seg_def)
  have "P s seg" unfolding seg_def by (rule P)
  with segs(3) have all: "\<forall>k<length (s # ss). P ((s # ss) ! k) ((seg # segs) ! k)"
    by (auto simp: nth_Cons split: nat.splits)
  show ?case
    apply (rule exI [of _ "seg # segs"])
    using segs(1,2) all step by (simp add: Let_def)
qed

text \<open>
  Claim C5. The generated portfolio is, strategy by strategy, a run of
  \<open>round(targetCompanies)\<close> companies (none when that is not positive), each with
  exactly one investment at the strategy's check size, target ownership and entry
  valuation, a current valuation of \<open>entryValuation * (1 + targetOwnership)\<close> and the
  status active. The single Seed strategy with ten target companies yields ten companies.
\<close>

theorem generatePortfolio_cohorts:
  "\<exists>segments.
     generatePortfolio clock inputs = concat segments
     \<and> length segments = length (stageStrategies inputs)
     \<and> (\<forall>k<length (stageStrategies inputs).
           length (segments ! k) = nat (mathRound (targetCompanies (stageStrategies inputs ! k)))
           \<and> (\<forall>c\<in>set (segments ! k).
                 currentStage c = stage (stageStrategies inputs ! k)
                 \<and> (\<exists>d. investments c =
                       [\<lparr>round' = stage (stageStrategies inputs ! k),
                         amount = checkSize (stageStrategies inputs ! k),
                         date = d,
                         ownership = targetOwnership (stageStrategies inputs ! k),
                         valuation = entryValuation (stageStrategies inputs ! k)\<rparr>])
                 \<and> currentValuation c
                     = entryValuation (stageStrategies inputs ! k)
                         * (1 + targetOwnership (stageStrategies inputs ! k))
                 \<and> status c = Active))"
proof -
  let ?P = "\<lambda>s seg. length seg = nat (mathRound (targetCompanies s))
               \<and> (\<forall>c\<in>set seg.
                     currentStage c = stage s
                     \<and> (\<exists>d. investments c =
                           [\<lparr>round' = stage s, amount = checkSize s, date = d,
                             ownership = targetOwnership s, valuation = entryValuation s\<rparr>])
                     \<and> currentValuation c = entryValuation s * (1 + targetOwnership s)
                     \<and> status c = Active)"
  have "\<And>s cid. ?P s (map (\<lambda>j. newCompany clock s j (cid + j))
                          [0..<nat (mathRound (targetCompanies s))])"
    by (auto simp: newCompany_def)
  from fold_segments [of ?P clock "[]" 1 "stageStrategies inputs", OF this]
  show ?thesis
    unfolding generatePortfolio_def by auto
qed

theorem generatePortfolio_cohorts_witness:
  "length (generatePortfolio stillClock seedFund) = 10
   \<and> currentStage (last (generatePortfolio stillClock seedFund)) = Seed
   \<and> (\<exists>d. investments (last (generatePortfolio stillClock seedFund)) =
         [\<lparr>round' = Seed, amount = 1000000, date = d,
           ownership = 0.1, valuation = 10000000\<rparr>])
   \<and> currentValuation (last (generatePortfolio stillClock seedFund)) = 11000000
   \<and> status (last (generatePortfolio stillClock seedFund)) = Active"
proof -
  obtain segments where seg:
    "generatePortfolio stillClock seedFund = concat segments"
    "length segments = length (stageStrategies seedFund)"
    "\<forall>k<length (stageStrategies seedFund).
           length (segments ! k) = nat (mathRound (targetCompanies (stageStrategies seedFund ! k)))
           \<and> (\<forall>c\<in>set (segments ! k).
                 currentStage c = stage (stageStrategies seedFund ! k)
                 \<and> (\<exists>d. investments c =
                       [\<lparr>round' = stage (stageStrategies seedFund ! k),
                         amount = checkSize (stageStrategies seedFund ! k),
                         date = d,
                         ownership = targetOwnership (stageStrategies seedFund ! k),
                         valuation = entryValuation (stageStrategies seedFund ! k)\<rparr>])
                 \<and> currentValuation c
                     = entryValuation (stageStrategies seedFund ! k)
                         * (1 + targetOwnership (stageStrategies seedFund ! k))
                 \<and> status c = Active)"
    using generatePortfolio_cohorts [of stillClock seedFund] by blast
  from seg(2) obtain sg where sg: "segments = [sg]"
    by (auto simp: seedFund_def length_Suc_conv)
  from seg(3) have
    "length sg = nat (mathRound (targetCompanies seedStrategy))
     \<and> (\<forall>c\<in>set sg.
           currentStage c = stage seedStrategy
           \<and> (\<exists>d. investments c =
                 [\<lparr>round' = stage seedStrategy, amount = checkSize seedStrategy,
                   date = d, ownership = targetOwnership seedStrategy,
                   valuation = entryValuation seedStrategy\<rparr>])
           \<and> currentValuation c
               = entryValuation seedStrategy * (1 + targetOwnership seedStrategy)
           \<and> status c = Active)"
    by (simp add: sg seedFund_def)
  then have all:
    "length (generatePortfolio stillClock seedFund) = 10
     \<and> (\<forall>c\<in>set (generatePortfolio stillClock seedFund).
           currentStage c = Seed
           \<and> (\<exists>d. investments c =
                 [\<lparr>round' = Seed, amount = 1000000, date = d,
                   ownership = 0.1, valuation = 10000000\<rparr>])
           \<and> currentValuation c = 11000000
           \<and> status c = Active)"
    by (simp add: seg(1) sg seedStrategy_def mathRound_def)
  then have "generatePortfolio stillClock seedFund \<noteq> []"
    by auto
  then have "last (generatePortfolio stillClock seedFund) \<in> set (generatePortfolio stillClock seedFund)"
    by (rule last_in_set)
  with all show ?thesis
    by blast
qed

text \<open>
  A stage with a positive allocation whose target of 0.4 companies rounds to zero: the
  generation returns an empty portfolio and raises nothing.
\<close>

theorem generatePortfolio_never_fails_counterexample:
  "0 < allocationPercent (seedStrategy\<lparr>targetCompanies := 0.4\<rparr>)
   \<and> mathRound (targetCompanies (seedStrategy\<lparr>targetCompanies := 0.4\<rparr>)) = 0
   \<and> generatePortfolio stillClock
         (seedFund\<lparr>stageStrategies := [seedStrategy\<lparr>targetCompanies := 0.4\<rparr>]\<rparr>) = []"
  by (simp add: generatePortfolio_def seedStrategy_def mathRound_def stageLoop_none)

text \<open>
  Claim C9, as the code has it. \<open>generatePortfolio\<close> never fails. A strategy whose
  \<open>targetCompanies\<close> rounds to zero or below contributes no company, whatever its
  allocation: the portfolio is the one generated without that strategy.
\<close>

theorem generatePortfolio_omits_empty_stage:
  assumes "mathRound (targetCompanies s) \<le> 0"
  shows "generatePortfolio clock (inputs\<lparr>stageStrategies := before @ s # after\<rparr>)
           = generatePortfolio clock (inputs\<lparr>stageStrategies := before @ after\<rparr>)"
  using assms by (simp add: generatePortfolio_def stageLoop_none Let_def)

theorem generatePortfolio_omits_empty_stage_witness:
  "mathRound (targetCompanies (seedStrategy\<lparr>targetCompanies := 0.4\<rparr>)) \<le> 0
   \<and> generatePortfolio stillClock
        (seedFund\<lparr>stageStrategies := [seedStrategy] @ seedStrategy\<lparr>targetCompanies := 0.4\<rparr> # []\<rparr>)
       = generatePortfolio stillClock (seedFund\<lparr>stageStrategies := [seedStrategy] @ []\<rparr>)"
proof -
  have h: "mathRound (targetCompanies (seedStrategy\<lparr>targetCompanies := 0.4\<rparr>)) \<le> 0"
    by (simp add: mathRound_def)
  from generatePortfolio_omits_empty_stage [OF h, where clock = stillClock and inputs = seedFund and before = "[seedStrategy]" and after = "[]"] h
  show ?thesis by blast
qed

section \<open>The quarterly loop, unfolded\<close>

text \<open>
  The loop of \<open>calculateTimeline\<close> runs its body on the quarters below the number of
  quarters of the fund life, so its result is \<open>timelineVarsAfter\<close> at that number.
\<close>

lemma timelineLoop_unfold:
  "timelineLoop pf inputs tq (investmentPeriodYears inputs * 4) q (timelineVarsAfter pf inputs q)
     = timelineVarsAfter pf inputs (max q (nat \<lceil>tq\<rceil>))"
proof (induction "nat \<lceil>tq\<rceil> - q" arbitrary: q)
  case 0
  then have "\<not> real q < tq" by linarith
  moreover from 0 have "max q (nat \<lceil>tq\<rceil>) = q" by simp
  ultimately show ?case
    by (subst timelineLoop.simps) simp
next
  case (Suc d)
  then have lt: "real q < tq" by linarith
  from Suc have m: "max (Suc q) (nat \<lceil>tq\<rceil>) = max q (nat \<lceil>tq\<rceil>)" by simp
  from Suc(2) have "d = nat \<lceil>tq\<rceil> - Suc q" by simp
  from Suc(1) [OF this] lt m show ?case
    by (subst timelineLoop.simps) simp
qed

lemma calculateTimeline_unfold:
  "calculateTimeline pf inputs
     = calculateIRRs (timeline (timelineVarsAfter pf inputs (nat \<lceil>fundLifeYears inputs * 4\<rceil>)))"
  using timelineLoop_unfold [of pf inputs "fundLifeYears inputs * 4" 0]
  by (simp add: calculateTimeline_def Let_def)

lemma length_timelineVarsAfter [simp]:
  "length (timeline (timelineVarsAfter pf inputs n)) = n"
  by (induction n) (simp_all add: timelineStep_def Let_def)

lemma timeline_Suc:
  "timeline (timelineVarsAfter pf inputs (Suc n))
     = timeline (timelineVarsAfter pf inputs n) @ [last (timeline (timelineVarsAfter pf inputs (Suc n)))]"
  by (simp add: timelineStep_def Let_def)

lemma timeline_nth:
  "i < n \<Longrightarrow> timeline (timelineVarsAfter pf inputs n) ! i
     = last (timeline (timelineVarsAfter pf inputs (Suc i)))"
proof (induction n)
  case 0
  then show ?case by simp
next
  case (Suc n)
  show ?case
  proof (cases "i = n")
    case True
    then show ?thesis
      by (subst timeline_Suc) (simp add: nth_append del: timelineVarsAfter.simps)
  next
    case False
    with Suc have "i < n" by simp
    with Suc.IH show ?thesis
      by (subst timeline_Suc) (simp add: nth_append del: timelineVarsAfter.simps)
  qed
qed

lemma cumulativeInvested_Suc:
  "cumulativeInvested (timelineVarsAfter pf inputs (Suc n))
     = cumulativeInvested (timelineVarsAfter pf inputs n)
       + calculateQuarterlyDeployment n (investmentPeriodYears inputs * 4)
           (fundSize inputs * 1000000) pf"
  by (simp add: timelineStep_def Let_def)

lemma cumulativeDistributed_Suc:
  "cumulativeDistributed (timelineVarsAfter pf inputs (Suc n))
     = cumulativeDistributed (timelineVarsAfter pf inputs n)
       + calculateQuarterlyDistributions n pf inputs"
  by (simp add: timelineStep_def Let_def)


lemma cumulativeCarry_zero [simp]:
  "cumulativeCarry (timelineVarsAfter pf inputs n) = Fin 0"
  by (induction n) (simp_all add: timelineStep_def Let_def)

lemma last_record_totals:
  "totalInvested (last (timeline (timelineVarsAfter pf inputs (Suc n))))
     = cumulativeInvested (timelineVarsAfter pf inputs (Suc n))"
  "totalDistributed (last (timeline (timelineVarsAfter pf inputs (Suc n))))
     = cumulativeDistributed (timelineVarsAfter pf inputs (Suc n))"
  "capitalDeployed (last (timeline (timelineVarsAfter pf inputs (Suc n))))
     = calculateQuarterlyDeployment n (investmentPeriodYears inputs * 4)
         (fundSize inputs * 1000000) pf"
  "distributions (last (timeline (timelineVarsAfter pf inputs (Suc n))))
     = calculateQuarterlyDistributions n pf inputs"
  "managementFees (last (timeline (timelineVarsAfter pf inputs (Suc n))))
     = calculateQuarterlyFees (cumulativeInvested (timelineVarsAfter pf inputs (Suc n)))
         (managementFeeRate inputs) n (investmentPeriodYears inputs * 4)"
  "portfolioValue (last (timeline (timelineVarsAfter pf inputs (Suc n)))) = calculateNAV pf n"
  "nav (last (timeline (timelineVarsAfter pf inputs (Suc n)))) = calculateNAV pf n"
  "quarter (last (timeline (timelineVarsAfter pf inputs (Suc n)))) = n"
  "grossIRR (last (timeline (timelineVarsAfter pf inputs (Suc n)))) = Fin 0"
  "netIRR (last (timeline (timelineVarsAfter pf inputs (Suc n)))) = Fin 0"
  by (simp_all add: timelineStep_def Let_def)


lemma calculateTimeline_Inr:
  assumes "calculateTimeline pf inputs = Inr recs"
  shows "0 < nat \<lceil>fundLifeYears inputs * 4\<rceil>
         \<and> (\<exists>g. recs = map (\<lambda>t. t\<lparr>grossIRR := g, netIRR := g * Fin 0.8\<rparr>)
                        (timeline (timelineVarsAfter pf inputs (nat \<lceil>fundLifeYears inputs * 4\<rceil>))))"
proof -
  let ?N = "nat \<lceil>fundLifeYears inputs * 4\<rceil>"
  let ?tl0 = "timeline (timelineVarsAfter pf inputs ?N)"
  from assms have irr: "calculateIRRs ?tl0 = Inr recs"
    by (simp add: calculateTimeline_unfold)
  then have ne: "?tl0 \<noteq> []"
    by (auto simp: calculateIRRs_def)
  then have "0 < length ?tl0"
    by blast
  then have pos: "0 < ?N"
    by simp
  from irr ne have "\<exists>g. recs = map (\<lambda>t. t\<lparr>grossIRR := g, netIRR := g * Fin 0.8\<rparr>) ?tl0"
    by (auto simp: calculateIRRs_def Let_def)
  with pos show ?thesis by blast
qed

lemma calculateTimeline_nth:
  assumes "calculateTimeline pf inputs = Inr recs" and "i < length recs"
  shows "\<exists>g. recs ! i = (last (timeline (timelineVarsAfter pf inputs (Suc i))))
                         \<lparr>grossIRR := g, netIRR := g * Fin 0.8\<rparr>"
proof -
  let ?N = "nat \<lceil>fundLifeYears inputs * 4\<rceil>"
  from calculateTimeline_Inr [OF assms(1)] obtain g where
    recs: "recs = map (\<lambda>t. t\<lparr>grossIRR := g, netIRR := g * Fin 0.8\<rparr>)
               (timeline (timelineVarsAfter pf inputs ?N))"
    by blast
  with assms(2) have i: "i < ?N" by simp
  then have "recs ! i = (timeline (timelineVarsAfter pf inputs ?N) ! i)
                        \<lparr>grossIRR := g, netIRR := g * Fin 0.8\<rparr>"
    by (simp add: recs)
  with timeline_nth [OF i, of pf inputs] show ?thesis
    by (auto simp del: timelineVarsAfter.simps)
qed

lemma calculateTimeline_length:
  "calculateTimeline pf inputs = Inr recs \<Longrightarrow> length recs = nat \<lceil>fundLifeYears inputs * 4\<rceil>"
  using calculateTimeline_Inr by fastforce

lemma calculateTimeline_projr:
  "0 < fundLifeYears inputs \<Longrightarrow>
     calculateTimeline pf inputs = Inr (projr (calculateTimeline pf inputs))"
proof -
  assume "0 < fundLifeYears inputs"
  then have "0 < nat \<lceil>fundLifeYears inputs * 4\<rceil>" by simp
  then have "timeline (timelineVarsAfter pf inputs (nat \<lceil>fundLifeYears inputs * 4\<rceil>)) \<noteq> []"
    by (metis length_timelineVarsAfter length_0_conv less_numeral_extra(3))
  then show ?thesis
    by (simp add: calculateTimeline_unfold calculateIRRs_def Let_def)
qed

lemma record_totals:
  assumes "calculateTimeline pf inputs = Inr recs" and "i < length recs"
  shows "totalInvested (recs ! i) = cumulativeInvested (timelineVarsAfter pf inputs (Suc i))"
    and "totalDistributed (recs ! i) = cumulativeDistributed (timelineVarsAfter pf inputs (Suc i))"
    and "distributions (recs ! i) = calculateQuarterlyDistributions i pf inputs"
    and "capitalDeployed (recs ! i)
           = calculateQuarterlyDeployment i (investmentPeriodYears inputs * 4)
               (fundSize inputs * 1000000) pf"
    and "managementFees (recs ! i)
           = calculateQuarterlyFees (cumulativeInvested (timelineVarsAfter pf inputs (Suc i)))
               (managementFeeRate inputs) i (investmentPeriodYears inputs * 4)"
    and "dpi (recs ! i) = dpi (last (timeline (timelineVarsAfter pf inputs (Suc i))))"
    and "portfolioValue (recs ! i) = calculateNAV pf i"
proof -
  from calculateTimeline_nth [OF assms] obtain g where
    "recs ! i = (last (timeline (timelineVarsAfter pf inputs (Suc i))))
                  \<lparr>grossIRR := g, netIRR := g * Fin 0.8\<rparr>"
    by blast
  then show
    "totalInvested (recs ! i) = cumulativeInvested (timelineVarsAfter pf inputs (Suc i))"
    "totalDistributed (recs ! i) = cumulativeDistributed (timelineVarsAfter pf inputs (Suc i))"
    "distributions (recs ! i) = calculateQuarterlyDistributions i pf inputs"
    "capitalDeployed (recs ! i)
           = calculateQuarterlyDeployment i (investmentPeriodYears inputs * 4)
               (fundSize inputs * 1000000) pf"
    "managementFees (recs ! i)
           = calculateQuarterlyFees (cumulativeInvested (timelineVarsAfter pf inputs (Suc i)))
               (managementFeeRate inputs) i (investmentPeriodYears inputs * 4)"
    "dpi (recs ! i) = dpi (last (timeline (timelineVarsAfter pf inputs (Suc i))))"
    "portfolioValue (recs ! i) = calculateNAV pf i"
    by (simp_all add: last_record_totals del: timelineVarsAfter.simps)
qed





section \<open>Cumulative invested and distributed capital\<close>

lemma plus_NaN [simp]: "x + NaN = NaN"
  by (cases x) simp_all

lemma deployment_finite:
  assumes "0 < fundSize inputs"
  shows "\<exists>x\<ge>0. calculateQuarterlyDeployment n iq (fundSize inputs * 1000000) pf = Fin x"
proof (cases "real n \<ge> iq")
  case True
  then show ?thesis by (simp add: calculateQuarterlyDeployment_def)
next
  case False
  then have iq: "0 < iq" by linarith
  have "- 1 \<le> sin (real n * 0.5)"
    by (rule sin_ge_minus_one)
  then have v: "0 \<le> 1 + sin (real n * 0.5) * 0.2"
    by linarith
  from assms iq have "0 \<le> fundSize inputs * 1000000 * 0.6 / iq" by simp
  with v have "0 \<le> fundSize inputs * 1000000 * 0.6 / iq * (1 + sin (real n * 0.5) * 0.2)"
    by (intro mult_nonneg_nonneg)
  with False iq show ?thesis
    by (simp add: calculateQuarterlyDeployment_def Let_def)
qed

lemma distributions_early:
  "n < 12 \<Longrightarrow> calculateQuarterlyDistributions n pf inputs = Fin 0"
  by (simp add: calculateQuarterlyDistributions_def)

lemma distributions_late:
  "12 \<le> n \<Longrightarrow> pf \<noteq> [] \<Longrightarrow>
     calculateQuarterlyDistributions n pf inputs = Fin (fundSize inputs * 150000)"
  by (simp add: calculateQuarterlyDistributions_def Let_def)

lemma distributions_empty_portfolio:
  "12 \<le> n \<Longrightarrow> calculateQuarterlyDistributions n [] inputs = NaN"
  by (simp add: calculateQuarterlyDistributions_def Let_def)

lemma cumulativeInvested_finite:
  assumes "0 < fundSize inputs"
  shows "\<exists>a\<ge>0. cumulativeInvested (timelineVarsAfter pf inputs n) = Fin a"
proof (induction n)
  case 0
  show ?case by simp
next
  case (Suc n)
  then obtain a where a: "0 \<le> a" "cumulativeInvested (timelineVarsAfter pf inputs n) = Fin a"
    by blast
  from deployment_finite [OF assms] obtain x where
    x: "0 \<le> x"
       "calculateQuarterlyDeployment n (investmentPeriodYears inputs * 4)
          (fundSize inputs * 1000000) pf = Fin x"
    by blast
  from a x have "0 \<le> a + x" by simp
  moreover from a x have "cumulativeInvested (timelineVarsAfter pf inputs (Suc n)) = Fin (a + x)"
    by (simp add: cumulativeInvested_Suc del: timelineVarsAfter.simps)
  ultimately show ?case by blast
qed

lemma cumulativeInvested_mono:
  assumes "0 < fundSize inputs"
  shows "cumulativeInvested (timelineVarsAfter pf inputs n)
           \<le> cumulativeInvested (timelineVarsAfter pf inputs (Suc n))"
proof -
  from cumulativeInvested_finite [OF assms] obtain a where
    a: "cumulativeInvested (timelineVarsAfter pf inputs n) = Fin a"
    by blast
  from deployment_finite [OF assms] obtain x where
    x: "0 \<le> x"
       "calculateQuarterlyDeployment n (investmentPeriodYears inputs * 4)
          (fundSize inputs * 1000000) pf = Fin x"
    by blast
  from a x show ?thesis
    by (simp add: cumulativeInvested_Suc del: timelineVarsAfter.simps)
qed

lemma cumulativeDistributed_closed:
  assumes "pf \<noteq> []"
  shows "cumulativeDistributed (timelineVarsAfter pf inputs n)
           = Fin (fundSize inputs * 150000 * real (n - 12))"
proof (induction n)
  case 0
  show ?case by simp
next
  case (Suc n)
  show ?case
  proof (cases "n < 12")
    case True
    with Suc show ?thesis
      by (simp add: cumulativeDistributed_Suc distributions_early del: timelineVarsAfter.simps)
  next
    case False
    then have "real (Suc n - 12) = real (n - 12) + 1" by simp
    with False Suc assms show ?thesis
      by (simp add: cumulativeDistributed_Suc distributions_late algebra_simps
               del: timelineVarsAfter.simps)
  qed
qed

lemma cumulativeDistributed_early:
  "n \<le> 12 \<Longrightarrow> cumulativeDistributed (timelineVarsAfter pf inputs n) = Fin 0"
proof (induction n)
  case 0
  show ?case by simp
next
  case (Suc n)
  then show ?case
    by (simp add: cumulativeDistributed_Suc distributions_early del: timelineVarsAfter.simps)
qed

lemma cumulativeDistributed_mono:
  assumes "pf \<noteq> []" and "0 < fundSize inputs"
  shows "cumulativeDistributed (timelineVarsAfter pf inputs n)
           \<le> cumulativeDistributed (timelineVarsAfter pf inputs (Suc n))"
proof -
  have "real (n - 12) \<le> real (Suc n - 12)" by simp
  with assms(2) have "fundSize inputs * 150000 * real (n - 12)
      \<le> fundSize inputs * 150000 * real (Suc n - 12)"
    by (simp add: mult_left_mono)
  then show ?thesis
    by (simp add: cumulativeDistributed_closed [OF assms(1)] del: timelineVarsAfter.simps)
qed

lemma cumulativeInvested_positive:
  assumes "0 < fundSize inputs" and "0 < investmentPeriodYears inputs"
  shows "\<exists>a>0. cumulativeInvested (timelineVarsAfter pf inputs (Suc n)) = Fin a"
proof (induction n)
  case 0
  from assms have "0 < fundSize inputs * 1000000 * 0.6 / (investmentPeriodYears inputs * 4)"
    by simp
  with assms(2) show ?case
    by (simp add: timelineStep_def Let_def calculateQuarterlyDeployment_def)
next
  case (Suc n)
  then obtain a where a: "0 < a" "cumulativeInvested (timelineVarsAfter pf inputs (Suc n)) = Fin a"
    by blast
  from deployment_finite [OF assms(1)] obtain x where
    x: "0 \<le> x"
       "calculateQuarterlyDeployment (Suc n) (investmentPeriodYears inputs * 4)
          (fundSize inputs * 1000000) pf = Fin x"
    by blast
  from a x have "0 < a + x" by simp
  moreover from a x have
    "cumulativeInvested (timelineVarsAfter pf inputs (Suc (Suc n))) = Fin (a + x)"
    by (simp add: cumulativeInvested_Suc [of pf inputs "Suc n"] del: timelineVarsAfter.simps)
  ultimately show ?case by blast
qed


text \<open>
  With a portfolio that is not empty, both cumulative totals are finite and never
  decrease from one record to the next.
\<close>

lemma timeline_monotone_nonempty_portfolio:
  assumes "0 < fundSize inputs" and "pf \<noteq> []"
    and "calculateTimeline pf inputs = Inr recs" and "Suc i < length recs"
  shows "totalInvested (recs ! i) \<le> totalInvested (recs ! Suc i)
         \<and> totalDistributed (recs ! i) \<le> totalDistributed (recs ! Suc i)"
proof -
  from assms(4) have i: "i < length recs" by simp
  show ?thesis
    using cumulativeInvested_mono [OF assms(1), of pf "Suc i"]
          cumulativeDistributed_mono [OF assms(2,1), of "Suc i"]
    by (simp add: record_totals [OF assms(3) i] record_totals [OF assms(3,4)]
             del: timelineVarsAfter.simps)
qed

text \<open>
  Claim C7. The cumulative invested and distributed capital should be non-decreasing in
  every timeline of a fund of positive size. On an empty portfolio the reference fund
  divides by the number of companies: from quarter 12 on the distributions are NaN, and
  the cumulative distributed capital goes from 0 in quarter 11 to NaN in quarter 12,
  which is not a step upwards.
\<close>

theorem empty_portfolio_breaks_monotonicity:
  "0 < fundSize seedFund
   \<and> calculateTimeline [] seedFund = Inr (projr (calculateTimeline [] seedFund))
   \<and> length (projr (calculateTimeline [] seedFund)) = 40
   \<and> totalDistributed (projr (calculateTimeline [] seedFund) ! 11) = Fin 0
   \<and> totalDistributed (projr (calculateTimeline [] seedFund) ! 12) = NaN
   \<and> \<not> totalDistributed (projr (calculateTimeline [] seedFund) ! 11)
         \<le> totalDistributed (projr (calculateTimeline [] seedFund) ! 12)"
proof -
  let ?recs = "projr (calculateTimeline [] seedFund)"
  have f: "0 < fundSize seedFund" by (simp add: seedFund_def)
  have a: "calculateTimeline [] seedFund = Inr ?recs"
    by (rule calculateTimeline_projr) (simp add: seedFund_def)
  then have "length ?recs = nat \<lceil>fundLifeYears seedFund * 4\<rceil>"
    by (rule calculateTimeline_length)
  then have l: "length ?recs = 40"
    by (simp add: seedFund_def)
  have "totalDistributed (?recs ! 11) = cumulativeDistributed (timelineVarsAfter [] seedFund (Suc 11))"
    by (rule record_totals(2) [OF a]) (simp add: l)
  then have d11: "totalDistributed (?recs ! 11) = Fin 0"
    by (simp add: cumulativeDistributed_early del: timelineVarsAfter.simps)
  have "cumulativeDistributed (timelineVarsAfter [] seedFund (Suc 12)) = NaN"
    by (subst cumulativeDistributed_Suc)
       (simp add: distributions_empty_portfolio del: timelineVarsAfter.simps)
  moreover have "totalDistributed (?recs ! 12)
      = cumulativeDistributed (timelineVarsAfter [] seedFund (Suc 12))"
    by (rule record_totals(2) [OF a]) (simp add: l)
  ultimately have d12: "totalDistributed (?recs ! 12) = NaN"
    by (simp only:)
  from f a l d11 d12 show ?thesis by simp
qed

section \<open>The rates of return\<close>

lemma cumulativeInvested_sum:
  "cumulativeInvested (timelineVarsAfter pf inputs n)
     = foldl (+) (Fin 0) (map capitalDeployed (timeline (timelineVarsAfter pf inputs n)))"
proof (induction n)
  case 0
  show ?case by simp
next
  case (Suc n)
  have "foldl (+) (Fin 0) (map capitalDeployed (timeline (timelineVarsAfter pf inputs (Suc n))))
      = foldl (+) (Fin 0) (map capitalDeployed (timeline (timelineVarsAfter pf inputs n)))
        + capitalDeployed (last (timeline (timelineVarsAfter pf inputs (Suc n))))"
    by (subst timeline_Suc) (simp del: timelineVarsAfter.simps)
  with Suc show ?case
    by (simp add: cumulativeInvested_Suc last_record_totals del: timelineVarsAfter.simps)
qed

lemma cumulativeDistributed_sum:
  "cumulativeDistributed (timelineVarsAfter pf inputs n)
     = foldl (+) (Fin 0) (map distributions (timeline (timelineVarsAfter pf inputs n)))"
proof (induction n)
  case 0
  show ?case by simp
next
  case (Suc n)
  have "foldl (+) (Fin 0) (map distributions (timeline (timelineVarsAfter pf inputs (Suc n))))
      = foldl (+) (Fin 0) (map distributions (timeline (timelineVarsAfter pf inputs n)))
        + distributions (last (timeline (timelineVarsAfter pf inputs (Suc n))))"
    by (subst timeline_Suc) (simp del: timelineVarsAfter.simps)
  with Suc show ?case
    by (simp add: cumulativeDistributed_Suc last_record_totals del: timelineVarsAfter.simps)
qed

lemma loop_leaves_irr_zero:
  "t \<in> set (timeline (timelineVarsAfter pf inputs n)) \<Longrightarrow> grossIRR t = Fin 0 \<and> netIRR t = Fin 0"
proof (induction n)
  case 0
  then show ?case by simp
next
  case (Suc n)
  from Suc.prems have
    "t \<in> set (timeline (timelineVarsAfter pf inputs n))
     \<or> t = last (timeline (timelineVarsAfter pf inputs (Suc n)))"
    by (subst (asm) timeline_Suc) (auto simp del: timelineVarsAfter.simps)
  with Suc.IH show ?case
    by (auto simp: last_record_totals simp del: timelineVarsAfter.simps)
qed

lemma calculateNAV_fold:
  "foldl
       (\<lambda>sum company.
          if status company = Active
          then (let quartersSinceInvestment = real q;
                    appreciation = mathPow (Fin 1.15) (Fin (quartersSinceInvestment / 4))
                in sum + Fin (currentValuation company) * appreciation)
          else sum)
       (Fin a) pf
   = Fin (a + (\<Sum>c\<leftarrow>filter (\<lambda>c. status c = Active) pf.
                  currentValuation c * 1.15 powr (real q / 4)))"
  by (induction pf arbitrary: a) (simp_all add: Let_def)

lemma calculateNAV_closed:
  "calculateNAV pf q
     = Fin (\<Sum>c\<leftarrow>filter (\<lambda>c. status c = Active) pf. currentValuation c * 1.15 powr (real q / 4))"
  unfolding calculateNAV_def by (simp only: calculateNAV_fold) simp

lemma seedFund_portfolio:
  "generatePortfolio stillClock seedFund
     = map (\<lambda>j. newCompany stillClock seedStrategy j (1 + j)) [0..<10]"
  by (simp add: generatePortfolio_def seedFund_def mathRound_def stageLoop_cohort
        seedStrategy_def)

lemma seedFund_nav:
  "calculateNAV (generatePortfolio stillClock seedFund) q
     = Fin (10 * (11000000 * 1.15 powr (real q / 4)))"
  by (simp add: calculateNAV_closed seedFund_portfolio newCompany_def seedStrategy_def
        filter_map comp_def sum_list_triv del: upt_Suc)

lemma backfilled_rates:
  assumes "calculateTimeline pf inputs = Inr recs" and "i < length recs"
  shows "grossIRR (recs ! i)
           = mathPow ((cumulativeDistributed (timelineVarsAfter pf inputs (length recs))
                         + calculateNAV pf (length recs - 1))
                        / cumulativeInvested (timelineVarsAfter pf inputs (length recs)))
               (Fin 1 / (Fin (real (length recs)) / Fin 4)) - Fin 1"
    and "netIRR (recs ! i) = grossIRR (recs ! i) * Fin 0.8"
proof -
  let ?N = "nat \<lceil>fundLifeYears inputs * 4\<rceil>"
  let ?tl0 = "timeline (timelineVarsAfter pf inputs ?N)"
  from assms(1) have irr: "calculateIRRs ?tl0 = Inr recs"
    by (simp add: calculateTimeline_unfold)
  then have ne: "?tl0 \<noteq> []"
    by (auto simp: calculateIRRs_def)
  define g where
    "g = mathPow ((totalDistributed (last ?tl0) + portfolioValue (last ?tl0))
                    / totalInvested (last ?tl0))
           (Fin 1 / (Fin (real (length ?tl0)) / Fin 4)) - Fin 1"
  from irr ne have recs: "recs = map (\<lambda>t. t\<lparr>grossIRR := g, netIRR := g * Fin 0.8\<rparr>) ?tl0"
    by (simp add: calculateIRRs_def Let_def g_def)
  then have len: "length recs = ?N" by simp
  with ne obtain m where m: "?N = Suc m"
    by (cases ?N) simp_all
  have "g = mathPow ((cumulativeDistributed (timelineVarsAfter pf inputs ?N)
                         + calculateNAV pf (?N - 1))
                        / cumulativeInvested (timelineVarsAfter pf inputs ?N))
               (Fin 1 / (Fin (real ?N) / Fin 4)) - Fin 1"
    unfolding g_def m by (simp add: last_record_totals del: timelineVarsAfter.simps)
  moreover from assms(2) have "grossIRR (recs ! i) = g" "netIRR (recs ! i) = g * Fin 0.8"
    by (simp_all add: recs)
  ultimately show "grossIRR (recs ! i)
           = mathPow ((cumulativeDistributed (timelineVarsAfter pf inputs (length recs))
                         + calculateNAV pf (length recs - 1))
                        / cumulativeInvested (timelineVarsAfter pf inputs (length recs)))
               (Fin 1 / (Fin (real (length recs)) / Fin 4)) - Fin 1"
    and "netIRR (recs ! i) = grossIRR (recs ! i) * Fin 0.8"
    by (simp_all only: len)
qed

text \<open>
  Claim C8. The loop leaves both rates at 0 in every record. After the loop one gross
  rate is computed from the whole series, the sum of all distributions plus the final
  portfolio value over the sum of all deployments, annualised over the length of the
  timeline, and it is written, with the net rate of 0.8 times it, into every record:
  all records carry the same gross and the same net rate.
\<close>

theorem irr_computed_once_and_backfilled:
  assumes "calculateTimeline pf inputs = Inr recs"
  shows "let totalIn = foldl (+) (Fin 0) (map capitalDeployed recs);
             totalOut = foldl (+) (Fin 0) (map distributions recs) + portfolioValue (last recs);
             years = Fin (real (length recs)) / Fin 4;
             g = mathPow (totalOut / totalIn) (Fin 1 / years) - Fin 1
         in recs = map (\<lambda>t. t\<lparr>grossIRR := g, netIRR := g * Fin 0.8\<rparr>)
                     (timeline (timelineVarsAfter pf inputs (nat \<lceil>fundLifeYears inputs * 4\<rceil>)))
          \<and> (\<forall>t\<in>set (timeline (timelineVarsAfter pf inputs (nat \<lceil>fundLifeYears inputs * 4\<rceil>))).
                grossIRR t = Fin 0 \<and> netIRR t = Fin 0)
          \<and> (\<forall>r\<in>set recs. grossIRR r = g \<and> netIRR r = g * Fin 0.8)"
proof -
  let ?N = "nat \<lceil>fundLifeYears inputs * 4\<rceil>"
  let ?tl0 = "timeline (timelineVarsAfter pf inputs ?N)"
  define g where
    "g = mathPow ((totalDistributed (last ?tl0) + portfolioValue (last ?tl0))
                    / totalInvested (last ?tl0))
           (Fin 1 / (Fin (real (length ?tl0)) / Fin 4)) - Fin 1"
  from assms have irr: "calculateIRRs ?tl0 = Inr recs"
    by (simp add: calculateTimeline_unfold)
  then have ne: "?tl0 \<noteq> []"
    by (auto simp: calculateIRRs_def)
  with irr have recs: "recs = map (\<lambda>t. t\<lparr>grossIRR := g, netIRR := g * Fin 0.8\<rparr>) ?tl0"
    by (simp add: calculateIRRs_def Let_def g_def)
  from ne have "0 < ?N"
    by (metis length_timelineVarsAfter length_greater_0_conv)
  then obtain m where m: "?N = Suc m"
    by (cases ?N) simp_all
  have len: "length recs = length ?tl0"
    by (simp add: recs)
  have dep: "map capitalDeployed recs = map capitalDeployed ?tl0"
    and dis: "map distributions recs = map distributions ?tl0"
    by (simp_all add: recs comp_def)
  from ne have pv: "portfolioValue (last recs) = portfolioValue (last ?tl0)"
    by (simp add: recs last_map)
  have ti: "totalInvested (last ?tl0) = foldl (+) (Fin 0) (map capitalDeployed ?tl0)"
    unfolding m by (simp only: last_record_totals cumulativeInvested_sum)
  have td: "totalDistributed (last ?tl0) = foldl (+) (Fin 0) (map distributions ?tl0)"
    unfolding m by (simp only: last_record_totals cumulativeDistributed_sum)
  have g: "g = mathPow ((foldl (+) (Fin 0) (map distributions recs) + portfolioValue (last recs))
                          / foldl (+) (Fin 0) (map capitalDeployed recs))
                 (Fin 1 / (Fin (real (length recs)) / Fin 4)) - Fin 1"
    by (simp only: g_def dep dis pv ti td len)
  have zero: "\<forall>t\<in>set ?tl0. grossIRR t = Fin 0 \<and> netIRR t = Fin 0"
    using loop_leaves_irr_zero by blast
  have same: "\<forall>r\<in>set recs. grossIRR r = g \<and> netIRR r = g * Fin 0.8"
    by (auto simp: recs)
  from recs zero same show ?thesis
    unfolding Let_def g [symmetric] by blast
qed

theorem irr_computed_once_and_backfilled_witness:
  "calculateTimeline (generatePortfolio stillClock seedFund) seedFund
     = Inr (projr (calculateTimeline (generatePortfolio stillClock seedFund) seedFund))
   \<and> length (projr (calculateTimeline (generatePortfolio stillClock seedFund) seedFund)) = 40
   \<and> grossIRR (projr (calculateTimeline (generatePortfolio stillClock seedFund) seedFund) ! 0)
       = grossIRR (projr (calculateTimeline (generatePortfolio stillClock seedFund) seedFund) ! 39)
   \<and> netIRR (projr (calculateTimeline (generatePortfolio stillClock seedFund) seedFund) ! 0)
       = grossIRR (projr (calculateTimeline (generatePortfolio stillClock seedFund) seedFund) ! 39)
           * Fin 0.8
   \<and> isFinite
        (grossIRR (projr (calculateTimeline (generatePortfolio stillClock seedFund) seedFund) ! 39))
   \<and> isFinite
        (netIRR (projr (calculateTimeline (generatePortfolio stillClock seedFund) seedFund) ! 0))"
proof -
  let ?pf = "generatePortfolio stillClock seedFund"
  let ?recs = "projr (calculateTimeline ?pf seedFund)"
  have a: "calculateTimeline ?pf seedFund = Inr ?recs"
    by (rule calculateTimeline_projr) (simp add: seedFund_def)
  then have "length ?recs = nat \<lceil>fundLifeYears seedFund * 4\<rceil>"
    by (rule calculateTimeline_length)
  then have l: "length ?recs = 40"
    by (simp add: seedFund_def)
  then have mem: "?recs ! 0 \<in> set ?recs" "?recs ! 39 \<in> set ?recs"
    by simp_all
  from irr_computed_once_and_backfilled [OF a] obtain g where
    "\<forall>r\<in>set ?recs. grossIRR r = g \<and> netIRR r = g * Fin 0.8"
    unfolding Let_def by blast
  with mem have same: "grossIRR (?recs ! 0) = grossIRR (?recs ! 39)"
    "netIRR (?recs ! 0) = grossIRR (?recs ! 39) * Fin 0.8"
    by simp_all
  have ne: "?pf \<noteq> []"
    by (simp add: seedFund_portfolio)
  have fs: "0 < fundSize seedFund" "0 < investmentPeriodYears seedFund" "fundSize seedFund = 50"
    by (simp_all add: seedFund_def)
  obtain inv where inv: "0 < inv"
      "cumulativeInvested (timelineVarsAfter ?pf seedFund (Suc 39)) = Fin inv"
    using cumulativeInvested_positive [OF fs(1,2)] by blast
  have cd: "cumulativeDistributed (timelineVarsAfter ?pf seedFund (Suc 39)) = Fin 210000000"
    by (simp add: cumulativeDistributed_closed [OF ne] fs(3) del: timelineVarsAfter.simps)
  define v :: real where "v = 10 * (11000000 * 1.15 powr (real 39 / 4))"
  have nav: "calculateNAV ?pf 39 = Fin v"
    unfolding v_def by (rule seedFund_nav)
  have v: "0 < v"
    unfolding v_def by simp
  have "grossIRR (?recs ! 39)
      = mathPow ((cumulativeDistributed (timelineVarsAfter ?pf seedFund (Suc 39))
                    + calculateNAV ?pf 39)
                   / cumulativeInvested (timelineVarsAfter ?pf seedFund (Suc 39)))
          (Fin 1 / (Fin (real (Suc 39)) / Fin 4)) - Fin 1"
    using backfilled_rates(1) [OF a, of 39] by (simp add: l del: timelineVarsAfter.simps)
  also have "\<dots> = Fin (((210000000 + v) / inv) powr (1 / 10) - 1)"
    using inv(1) v by (simp only: inv(2) cd nav) simp
  finally have g: "grossIRR (?recs ! 39) = Fin (((210000000 + v) / inv) powr (1 / 10) - 1)" .
  then have "isFinite (grossIRR (?recs ! 39))"
    by simp
  moreover from g same(2) have "isFinite (netIRR (?recs ! 0))"
    by simp
  ultimately show ?thesis
    using a l same by blast
qed

section \<open>Distributions and the exit-probability matrix\<close>










section \<open>Ratios guarded against a zero denominator\<close>






end
